theory Spec2Isabelle
  imports Complex_Main "HOL-Library.Log_Nat" "HOL-Library.Sublist"
begin

section \<open>The scoring core of fin\_pulse\_engine.py\<close>

text \<open>
  The development embeds the scoring and explanation functions of
  \<^verbatim>\<open>src/fin_pulse_engine.py\<close>: \<^verbatim>\<open>calculate_credit_score\<close>,
  \<^verbatim>\<open>generate_plain_language_summary\<close> and \<^verbatim>\<open>get_rating_category\<close>.
  Python's unbounded integers are \<^typ>\<open>int\<close> and Python strings are \<^typ>\<open>string\<close>.
  The numeric fields of the financial data are Python integers, as the provider's JSON
  and the defaults \<^verbatim>\<open>0\<close> of \<^verbatim>\<open>get_financial_data\<close> supply them.
  A Python float is represented by the rational number that the IEEE binary64 value
  denotes, so that every comparison and rounding of the source is computed exactly.
\<close>

subsection \<open>Python's floating-point operations on integers\<close>

text \<open>The exceptions that the arithmetic of the scorer can raise.\<close>

datatype py_error = ZeroDivisionError | OverflowError

text \<open>
  \<open>ilog2 q\<close> is the binary exponent of a positive rational \<open>q\<close>: the integer \<open>e\<close> with
  \<open>2 powi e \<le> q < 2 powi (e + 1)\<close>, computed from the bit lengths of the numerator and
  the denominator.
\<close>

definition ilog2 :: "rat \<Rightarrow> int" where
  "ilog2 q = (let (a, b) = quotient_of q; e0 = bitlen a - bitlen b
              in if 2 powi e0 \<le> q then e0 else e0 - 1)"

text \<open>Rounding to the nearest integer, ties to the even one (the IEEE default).\<close>

definition round_half_even :: "rat \<Rightarrow> int" where
  "round_half_even q =
     (let f = \<lfloor>q\<rfloor>; d = q - of_int f
      in if d < 1 / 2 then f else if d > 1 / 2 then f + 1
         else if even f then f else f + 1)"

text \<open>
  The binary64 number nearest to a rational: 53 significant bits, ties to even, and the
  fixed spacing \<open>2 powi (- 1074)\<close> of the subnormal range below \<open>2 powi (- 1022)\<close>. The
  exponent is not bounded above here; the operations below test the result against
  \<open>2 ^ 1024\<close>. A float literal of the source such as \<^verbatim>\<open>0.2\<close> is
  \<open>float_of_rat (2 / 10)\<close>.
\<close>

definition float_of_rat :: "rat \<Rightarrow> rat" where
  "float_of_rat q =
     (if q = 0 then 0
      else let m = \<bar>q\<bar>; e = ilog2 m; p = max e (- 1022) - 52
           in sgn q * of_int (round_half_even (m / 2 powi p)) * 2 powi p)"

text \<open>
  Python's true division \<^verbatim>\<open>a / b\<close> of two integers: the correctly rounded quotient;
  \<^verbatim>\<open>ZeroDivisionError\<close> for a zero divisor, \<^verbatim>\<open>OverflowError\<close> (integer division
  result too large for a float) when the rounded quotient is not a finite float.
\<close>

definition true_div :: "int \<Rightarrow> int \<Rightarrow> py_error + rat" where
  "true_div a b =
     (if b = 0 then Inl ZeroDivisionError
      else let x = float_of_rat (of_int a / of_int b)
           in if \<bar>x\<bar> \<ge> 2 ^ 1024 then Inl OverflowError else Inr x)"

text \<open>
  Python's \<^verbatim>\<open>round(x, n)\<close> of a float, for the small non-negative \<open>n\<close> of the source:
  the exact value of \<open>x\<close> is rounded to \<open>n\<close> decimals, ties to even, and the decimal result
  is converted back to the nearest float.
\<close>

definition py_round :: "rat \<Rightarrow> nat \<Rightarrow> rat" where
  "py_round x n = float_of_rat (of_int (round_half_even (x * 10 ^ n)) / 10 ^ n)"

subsection \<open>Data\<close>

text \<open>
  The dictionary built by \<^verbatim>\<open>get_financial_data\<close> (lines 56--65). The scorer reads four
  of its keys with \<^verbatim>\<open>.get(key, default)\<close>; such a field is \<open>None\<close> when the key is
  missing. The argument of the scorer is \<open>None\<close> when the ticker is invalid.
\<close>

record financial_data =
  ticker :: string
  company_name :: string
  total_revenue :: "int option"
  total_debt :: "int option"
  market_cap :: "int option"
  currency :: "string option"
  sector :: string
  industry :: string

text \<open>\<^verbatim>\<open>d.get(key, default)\<close> on a field that may be missing.\<close>

definition get_default :: "'a option \<Rightarrow> 'a \<Rightarrow> 'a" where
  "get_default v dflt = (case v of None \<Rightarrow> dflt | Some x \<Rightarrow> x)"

text \<open>
  A headline is a dictionary from keys (\<^verbatim>\<open>'title'\<close>, \<^verbatim>\<open>'description'\<close>, \<^verbatim>\<open>'url'\<close>,
  \<^verbatim>\<open>'published_at'\<close>, \<^verbatim>\<open>'source'\<close>) to strings.
\<close>

type_synonym headline = "string \<rightharpoonup> string"

definition dict_get :: "('k \<rightharpoonup> 'v) \<Rightarrow> 'k \<Rightarrow> 'v \<Rightarrow> 'v" where
  "dict_get d k dflt = (case d k of None \<Rightarrow> dflt | Some v \<Rightarrow> v)"

text \<open>
  The value stored under \<^verbatim>\<open>'debt_ratio'\<close> and \<^verbatim>\<open>'market_cap_billions'\<close>: a float or
  a marker string.
\<close>

datatype pyval = PyFloat rat | PyStr string

text \<open>
  The explanation dictionary. Its first four keys are set on every path; the others are
  \<open>None\<close> when the path does not set them.
\<close>

record explanation =
  base_score :: int
  debt_ratio_impact :: int
  market_cap_impact :: int
  news_sentiment_impact :: int
  error :: "string option"
  debt_ratio :: "pyval option"
  market_cap_billions :: "pyval option"
  positive_news_count :: "int option"
  negative_news_count :: "int option"
  final_score :: "int option"

subsection \<open>Debt-to-revenue ratio analysis\<close>

text \<open>The if/elif chain of lines 180--191 on the float \<^verbatim>\<open>debt_ratio\<close>.\<close>

definition debt_band :: "rat \<Rightarrow> int" where
  "debt_band ratio =
     (if ratio \<le> float_of_rat (2 / 10) then 25
      else if ratio \<le> float_of_rat (4 / 10) then 15
      else if ratio \<le> float_of_rat (6 / 10) then 5
      else if ratio \<le> float_of_rat (8 / 10) then - 5
      else if ratio \<le> 1 then - 15
      else - 25)"

text \<open>
  The body of the \<^verbatim>\<open>try\<close> block, lines 176--197: the impact and the value stored under
  \<^verbatim>\<open>'debt_ratio'\<close>, or the exception raised by the division.
\<close>

definition debt_ratio_try :: "int \<Rightarrow> int \<Rightarrow> py_error + int \<times> pyval" where
  "debt_ratio_try revenue debt =
     (if revenue > 0 \<and> debt \<ge> 0 then
        (case true_div debt revenue of
           Inl e \<Rightarrow> Inl e
         | Inr ratio \<Rightarrow> Inr (debt_band ratio, PyFloat (py_round ratio 3)))
      else Inr (- 10, PyStr ''Data unavailable''))"

text \<open>
  The \<^verbatim>\<open>try\<close> statement with its handler, lines 175--201: a \<^verbatim>\<open>ZeroDivisionError\<close> is
  caught, any other exception propagates.
\<close>

definition debt_ratio_analysis :: "int \<Rightarrow> int \<Rightarrow> py_error + int \<times> pyval" where
  "debt_ratio_analysis revenue debt =
     (case debt_ratio_try revenue debt of
        Inl ZeroDivisionError \<Rightarrow> Inr (- 20, PyStr ''Revenue is zero'')
      | Inl e \<Rightarrow> Inl e
      | Inr r \<Rightarrow> Inr r)"

subsection \<open>Market capitalisation analysis\<close>

text \<open>The if/elif chain of lines 221--230 on the float \<^verbatim>\<open>market_cap_billions\<close>.\<close>

definition market_cap_band :: "rat \<Rightarrow> int" where
  "market_cap_band billions =
     (if billions \<ge> 500 then 20
      else if billions \<ge> 100 then 15
      else if billions \<ge> 50 then 10
      else if billions \<ge> 10 then 5
      else 0)"

text \<open>Lines 207--234: the impact and the value stored under \<^verbatim>\<open>'market_cap_billions'\<close>.\<close>

definition market_cap_analysis :: "int \<Rightarrow> string \<Rightarrow> py_error + int \<times> pyval" where
  "market_cap_analysis cap cur =
     (if cap > 0 then
        let market_cap_inr = (if cur = ''USD'' then cap * 83 else cap)
        in (case true_div market_cap_inr 1000000000 of
              Inl e \<Rightarrow> Inl e
            | Inr billions \<Rightarrow>
                Inr (market_cap_band billions, PyFloat (py_round billions 2)))
      else Inr (0, PyStr ''Data unavailable''))"

subsection \<open>News sentiment analysis\<close>

definition positive_keywords :: "string list" where
  "positive_keywords =
     [''profit'', ''growth'', ''deal'', ''upgrade'', ''surge'', ''gain'', ''rise'',
      ''expansion'', ''acquisition'', ''partnership'', ''success'', ''record'',
      ''strong'', ''robust'', ''positive'', ''bullish'', ''optimistic'']"

definition negative_keywords :: "string list" where
  "negative_keywords =
     [''loss'', ''fraud'', ''scam'', ''downgrade'', ''slump'', ''decline'', ''fall'',
      ''crash'', ''lawsuit'', ''investigation'', ''layoffs'', ''crisis'', ''warning'',
      ''deficit'', ''trouble'', ''concern'', ''risk'', ''scandal'']"

text \<open>
  \<^verbatim>\<open>str.lower()\<close> on the ASCII letters. (Python also folds letters outside ASCII; the
  properties below speak about the lowered text and do not depend on how it was lowered.)
\<close>

definition lower_char :: "char \<Rightarrow> char" where
  "lower_char c =
     (let n = (of_char c :: nat) in if 65 \<le> n \<and> n \<le> 90 then char_of (n + 32) else c)"

definition lower :: "string \<Rightarrow> string" where
  "lower s = map lower_char s"

text \<open>Lines 258--260: the lowered title, a space, and the lowered description.\<close>

definition full_text :: "headline \<Rightarrow> string" where
  "full_text headline =
     lower (dict_get headline ''title'' []) @ '' '' @
     lower (dict_get headline ''description'' [])"

text \<open>Lines 263--264: \<^verbatim>\<open>any(keyword in full_text for keyword in ...)\<close>.\<close>

definition has_positive :: "string \<Rightarrow> bool" where
  "has_positive txt = list_ex (\<lambda>keyword. sublist keyword txt) positive_keywords"

definition has_negative :: "string \<Rightarrow> bool" where
  "has_negative txt = list_ex (\<lambda>keyword. sublist keyword txt) negative_keywords"

text \<open>
  One iteration of the loop of lines 257--272 on the state
  \<open>(news_sentiment_impact, positive_count, negative_count)\<close>.
\<close>

definition sentiment_step :: "int \<times> int \<times> int \<Rightarrow> headline \<Rightarrow> int \<times> int \<times> int" where
  "sentiment_step st headline =
     (case st of (impact, pos, neg) \<Rightarrow>
        if has_negative (full_text headline) then (impact - 5, pos, neg + 1)
        else if has_positive (full_text headline) then (impact + 5, pos + 1, neg)
        else (impact, pos, neg))"

fun sentiment_loop :: "int \<times> int \<times> int \<Rightarrow> headline list \<Rightarrow> int \<times> int \<times> int" where
  "sentiment_loop st [] = st"
| "sentiment_loop st (headline # rest) = sentiment_loop (sentiment_step st headline) rest"

text \<open>Lines 252--272, with the guard \<^verbatim>\<open>if news_headlines:\<close>.\<close>

definition news_sentiment_analysis :: "headline list \<Rightarrow> int \<times> int \<times> int" where
  "news_sentiment_analysis news_headlines =
     (if news_headlines \<noteq> [] then sentiment_loop (0, 0, 0) news_headlines else (0, 0, 0))"

subsection \<open>The score\<close>

text \<open>
  \<^verbatim>\<open>calculate_credit_score(financial_data, news_headlines)\<close>, lines 138--283. The three
  analyses run in the order of the source, so the first exception that is not caught
  ends the call.
\<close>

definition calculate_credit_score ::
    "financial_data option \<Rightarrow> headline list \<Rightarrow> py_error + int \<times> explanation" where
  "calculate_credit_score fin news_headlines =
     (case fin of
        None \<Rightarrow>
          Inr (0, \<lparr>base_score = 0, debt_ratio_impact = 0, market_cap_impact = 0,
                   news_sentiment_impact = 0,
                   error = Some ''Invalid ticker or data unavailable'',
                   debt_ratio = None, market_cap_billions = None,
                   positive_news_count = None, negative_news_count = None,
                   final_score = None\<rparr>)
      | Some fd \<Rightarrow>
          (case debt_ratio_analysis (get_default (total_revenue fd) 0)
                  (get_default (total_debt fd) 0) of
             Inl e \<Rightarrow> Inl e
           | Inr (debt_impact, ratio_value) \<Rightarrow>
               (case market_cap_analysis (get_default (market_cap fd) 0)
                       (get_default (currency fd) ''INR'') of
                  Inl e \<Rightarrow> Inl e
                | Inr (cap_impact, billions_value) \<Rightarrow>
                    (case news_sentiment_analysis news_headlines of
                       (news_impact, positive_count, negative_count) \<Rightarrow>
                         let current_score = 50 + debt_impact + cap_impact + news_impact;
                             score = max 0 (min 100 current_score)
                         in Inr (score,
                              \<lparr>base_score = 50, debt_ratio_impact = debt_impact,
                               market_cap_impact = cap_impact,
                               news_sentiment_impact = news_impact,
                               error = None,
                               debt_ratio = Some ratio_value,
                               market_cap_billions = Some billions_value,
                               positive_news_count = Some positive_count,
                               negative_news_count = Some negative_count,
                               final_score = Some score\<rparr>)))))"

subsection \<open>Plain-language summary\<close>

text \<open>Lines 303--312.\<close>

definition overall_assessment :: "int \<Rightarrow> string" where
  "overall_assessment score =
     (if score \<ge> 80 then ''shows excellent creditworthiness''
      else if score \<ge> 65 then ''demonstrates strong financial health''
      else if score \<ge> 50 then ''presents a moderate credit profile''
      else if score \<ge> 35 then ''shows concerning credit indicators''
      else ''exhibits high credit risk'')"

text \<open>
  Lines 319--342: what each of the three blocks appends to the lists
  \<^verbatim>\<open>strengths\<close> (first component) and \<^verbatim>\<open>concerns\<close> (second component).
\<close>

definition debt_position :: "int \<Rightarrow> string list \<times> string list" where
  "debt_position debt_impact =
     (if debt_impact \<ge> 15 then ([''excellent debt management''], [])
      else if debt_impact \<ge> 5 then ([''healthy debt levels''], [])
      else if debt_impact \<le> - 10 then ([], [''high debt burden''])
      else ([], []))"

definition market_position :: "int \<Rightarrow> string list \<times> string list" where
  "market_position cap_impact =
     (if cap_impact \<ge> 15 then ([''strong market position''], [])
      else if cap_impact \<ge> 10 then ([''solid market presence''], [])
      else if cap_impact \<le> 5 then ([], [''limited market size''])
      else ([], []))"

definition news_position :: "int \<Rightarrow> string list \<times> string list" where
  "news_position news_impact =
     (if news_impact \<ge> 10 then ([''positive market sentiment''], [])
      else if news_impact \<ge> 5 then ([''favorable news coverage''], [])
      else if news_impact \<le> - 10 then ([], [''negative market sentiment''])
      else if news_impact \<le> - 5 then ([], [''mixed news sentiment''])
      else ([], []))"

text \<open>The lists \<^verbatim>\<open>strengths\<close> and \<^verbatim>\<open>concerns\<close> after line 342.\<close>

definition summary_lists :: "explanation \<Rightarrow> string list \<times> string list" where
  "summary_lists e =
     (case debt_position (debt_ratio_impact e) of (s1, c1) \<Rightarrow>
      case market_position (market_cap_impact e) of (s2, c2) \<Rightarrow>
      case news_position (news_sentiment_impact e) of (s3, c3) \<Rightarrow>
        (s1 @ s2 @ s3, c1 @ c2 @ c3))"

text \<open>\<^verbatim>\<open>sep.join(parts)\<close>.\<close>

fun join :: "string \<Rightarrow> string list \<Rightarrow> string" where
  "join sep [] = []"
| "join sep [x] = x"
| "join sep (x # y # ys) = x @ sep @ join sep (y # ys)"

text \<open>Lines 347--351: the sentence appended to \<^verbatim>\<open>summary_parts\<close> for the strengths.\<close>

definition strengths_sentence :: "string list \<Rightarrow> string list" where
  "strengths_sentence strengths =
     (if strengths \<noteq> [] then
        (if length strengths = 1 then
           [''The company benefits from '' @ hd strengths @ ''.'']
         else [''Key strengths include '' @ join '', '' (butlast strengths) @
               '', and '' @ last strengths @ ''.''])
      else [])"

text \<open>Lines 353--360: the sentence appended to \<^verbatim>\<open>summary_parts\<close> for the concerns.\<close>

definition concerns_sentence :: "string list \<Rightarrow> string list \<Rightarrow> string list" where
  "concerns_sentence strengths concerns =
     (if concerns \<noteq> [] then
        (if length concerns = 1 then
           (if strengths \<noteq> [] then
              [''However, attention should be paid to '' @ hd concerns @ ''.'']
            else [''Primary concerns include '' @ hd concerns @ ''.''])
         else [''Areas of concern include '' @ join '', '' (butlast concerns) @
               '', and '' @ last concerns @ ''.''])
      else [])"

text \<open>Lines 363--370.\<close>

definition recommendation :: "int \<Rightarrow> string" where
  "recommendation score =
     (if score \<ge> 75 then ''This represents a solid investment-grade credit profile.''
      else if score \<ge> 60 then
        ''Overall, this indicates an acceptable credit risk for most investors.''
      else if score \<ge> 40 then
        ''Investors should carefully evaluate the risk-reward profile.''
      else
        ''This credit profile suggests significant risk that requires careful consideration.'')"

text \<open>
  \<^verbatim>\<open>generate_plain_language_summary(score, explanation, company_name)\<close>, lines 285--372.
  The three impacts are read with \<^verbatim>\<open>.get(key, 0)\<close>; the keys are present in every
  explanation.
\<close>

definition generate_plain_language_summary :: "int \<Rightarrow> explanation \<Rightarrow> string \<Rightarrow> string" where
  "generate_plain_language_summary score e name =
     (case summary_lists e of (strengths, concerns) \<Rightarrow>
        join '' ''
          ([''Based on our comprehensive analysis, '' @ name @ '' '' @
              overall_assessment score @ ''.''] @
           strengths_sentence strengths @
           concerns_sentence strengths concerns @
           [recommendation score]))"

subsection \<open>Rating classifier\<close>

text \<open>\<^verbatim>\<open>get_rating_category(score)\<close>, lines 383--398: an if/elif chain, highest band first.\<close>

definition get_rating_category :: "int \<Rightarrow> string" where
  "get_rating_category score =
     (if score \<ge> 85 then ''AAA (Excellent)''
      else if score \<ge> 75 then ''AA (Very Good)''
      else if score \<ge> 65 then ''A (Good)''
      else if score \<ge> 55 then ''BBB (Fair)''
      else if score \<ge> 45 then ''BB (Below Average)''
      else if score \<ge> 35 then ''B (Poor)''
      else ''C (High Risk)'')"

text \<open>The seven labels the classifier can return, highest band first.\<close>

definition rating_labels :: "string list" where
  "rating_labels =
     [''AAA (Excellent)'', ''AA (Very Good)'', ''A (Good)'', ''BBB (Fair)'',
      ''BB (Below Average)'', ''B (Poor)'', ''C (High Risk)'']"

section \<open>Properties\<close>

subsection \<open>Rounding to the nearest float\<close>

text \<open>The binary exponent is characterised by its bounds, and it is monotone.\<close>

lemma bitlen_rat_bounds:
  assumes "0 < a"
  shows "2 powi (bitlen a - 1) \<le> (of_int a :: rat)" "(of_int a :: rat) < 2 powi (bitlen a)"
proof -
  from bitlen_bounds [OF assms]
  have l: "2 ^ nat (bitlen a - 1) \<le> a" and u: "a < 2 ^ nat (bitlen a)" by simp_all
  have pos: "1 \<le> bitlen a"
    using assms bitlen_eq_zero_iff [of a] bitlen_nonneg [of a] by linarith
  have "(of_int (2 ^ nat (bitlen a - 1)) :: rat) \<le> of_int a"
    using l by (simp only: of_int_le_iff)
  then show "2 powi (bitlen a - 1) \<le> (of_int a :: rat)"
    using pos by (simp add: power_int_nonneg_exp)
  have "(of_int a :: rat) < of_int (2 ^ nat (bitlen a))"
    using u by (simp only: of_int_less_iff)
  then show "(of_int a :: rat) < 2 powi (bitlen a)"
    using pos by (simp add: power_int_nonneg_exp)
qed

lemma ilog2_bounds:
  assumes "0 < q"
  shows "2 powi (ilog2 q) \<le> q" "q < 2 powi (ilog2 q + 1)"
proof -
  obtain a b where ab: "quotient_of q = (a, b)" by (cases "quotient_of q")
  have b: "0 < b" using ab by (rule quotient_of_denom_pos)
  have q: "q = of_int a / of_int b" using ab by (rule quotient_of_div)
  have a: "0 < a" using assms b q by (simp add: zero_less_divide_iff)
  define e0 where "e0 = bitlen a - bitlen b"
  have p2: "(0::rat) < 2 powi k" for k by (simp add: zero_less_power_int)
  have "q < 2 powi (bitlen a) / 2 powi (bitlen b - 1)"
    unfolding q using bitlen_rat_bounds [OF a] bitlen_rat_bounds [OF b] a b p2
    by (intro frac_less) simp_all
  also have "\<dots> = 2 powi (bitlen a - (bitlen b - 1))"
    by (rule power_int_diff [symmetric]) simp
  finally have up: "q < 2 powi (e0 + 1)"
    by (simp add: e0_def algebra_simps)
  have "2 powi (bitlen a - 1) / 2 powi (bitlen b) < q"
    unfolding q using bitlen_rat_bounds [OF a] bitlen_rat_bounds [OF b] a b p2
    by (intro frac_less2) simp_all
  moreover have "2 powi (bitlen a - 1) / 2 powi (bitlen b) = (2::rat) powi (bitlen a - 1 - bitlen b)"
    by (rule power_int_diff [symmetric]) simp
  ultimately have lo: "2 powi (e0 - 1) < q"
    by (simp add: e0_def algebra_simps)
  have il: "ilog2 q = (if 2 powi e0 \<le> q then e0 else e0 - 1)"
    by (simp add: ilog2_def ab e0_def)
  show "2 powi (ilog2 q) \<le> q"
    using lo by (simp add: il)
  show "q < 2 powi (ilog2 q + 1)"
    using up by (simp add: il)
qed

lemma ilog2_eqI:
  assumes "2 powi e \<le> q" "q < 2 powi (e + 1)"
  shows "ilog2 q = e"
proof -
  have q: "0 < q" using assms(1) by (rule less_le_trans [OF zero_less_power_int, rotated]) simp
  have "(2::rat) powi e < 2 powi (ilog2 q + 1)"
    using assms(1) ilog2_bounds(2) [OF q] by simp
  then have 1: "e < ilog2 q + 1"
    by (metis power_int_increasing not_le one_le_numeral)
  have "(2::rat) powi (ilog2 q) < 2 powi (e + 1)"
    using assms(2) ilog2_bounds(1) [OF q] by simp
  then have 2: "ilog2 q < e + 1"
    by (metis power_int_increasing not_le one_le_numeral)
  from 1 2 show ?thesis by simp
qed

lemma ilog2_mono:
  assumes "0 < q" "q \<le> r"
  shows "ilog2 q \<le> ilog2 r"
proof -
  have r: "0 < r" using assms by simp
  have "(2::rat) powi (ilog2 q) < 2 powi (ilog2 r + 1)"
    using ilog2_bounds(1) [OF assms(1)] ilog2_bounds(2) [OF r] assms(2) by simp
  then have "ilog2 q < ilog2 r + 1"
    by (metis power_int_increasing not_le one_le_numeral)
  then show ?thesis by simp
qed

lemma round_half_even_of_int [simp]: "round_half_even (of_int n) = n"
  by (simp add: round_half_even_def)

lemma round_half_even_lower: "\<lfloor>q\<rfloor> \<le> round_half_even q"
  by (simp add: round_half_even_def Let_def)

lemma round_half_even_upper: "round_half_even q \<le> \<lfloor>q\<rfloor> + 1"
  by (simp add: round_half_even_def Let_def)

lemma round_half_even_mono:
  assumes "q \<le> r"
  shows "round_half_even q \<le> round_half_even r"
proof (cases "\<lfloor>q\<rfloor> = \<lfloor>r\<rfloor>")
  case True
  then show ?thesis using assms
    by (auto simp add: round_half_even_def Let_def)
next
  case False
  then have "\<lfloor>q\<rfloor> + 1 \<le> \<lfloor>r\<rfloor>"
    using floor_mono [OF assms] by simp
  then show ?thesis
    using round_half_even_upper [of q] round_half_even_lower [of r] by linarith
qed

lemma round_half_even_le_int:
  assumes "q \<le> of_int n"
  shows "round_half_even q \<le> n"
  using round_half_even_mono [OF assms] by simp

lemma round_half_even_ge_int:
  assumes "of_int n \<le> q"
  shows "n \<le> round_half_even q"
  using round_half_even_mono [OF assms] by simp

lemma float_of_rat_pos:
  assumes "0 < q"
  shows "float_of_rat q =
    of_int (round_half_even (q / 2 powi (max (ilog2 q) (- 1022) - 52))) *
      2 powi (max (ilog2 q) (- 1022) - 52)"
  using assms by (simp add: float_of_rat_def Let_def)

lemma float_of_rat_nonneg:
  assumes "0 \<le> q"
  shows "0 \<le> float_of_rat q"
proof (cases "q = 0")
  case True
  then show ?thesis by (simp add: float_of_rat_def)
next
  case False
  with assms have q: "0 < q" by simp
  define p where "p = max (ilog2 q) (- 1022) - 52"
  have "(0::rat) \<le> q / 2 powi p"
    using q by (simp add: zero_le_divide_iff zero_less_power_int less_imp_le)
  then have "0 \<le> round_half_even (q / 2 powi p)"
    using round_half_even_ge_int [of 0] by simp
  then show ?thesis
    unfolding float_of_rat_pos [OF q] p_def [symmetric]
    by (simp add: zero_le_mult_iff zero_less_power_int less_imp_le)
qed

lemma float_of_rat_upper:
  assumes "0 < q"
  shows "float_of_rat q \<le> 2 powi (max (ilog2 q) (- 1022) + 1)"
proof -
  define K where "K = max (ilog2 q) (- 1022) + 1"
  define p where "p = K - 53"
  have p: "max (ilog2 q) (- 1022) - 52 = p" by (simp add: p_def K_def)
  have pp: "(0::rat) < 2 powi p" by (simp add: zero_less_power_int)
  have "q < 2 powi (ilog2 q + 1)" using assms by (rule ilog2_bounds)
  also have "\<dots> \<le> 2 powi K"
    by (rule power_int_increasing) (simp_all add: K_def)
  finally have "q / 2 powi p \<le> 2 powi K / 2 powi p"
    using pp by (intro divide_right_mono) simp_all
  also have "2 powi K / 2 powi p = (2::rat) powi (K - p)"
    by (rule power_int_diff [symmetric]) simp
  also have "\<dots> = of_int (2 ^ 53)"
    by (simp add: p_def)
  finally have "round_half_even (q / 2 powi p) \<le> 2 ^ 53"
    by (rule round_half_even_le_int)
  then have "(of_int (round_half_even (q / 2 powi p)) :: rat) \<le> of_int (2 ^ 53)"
    by (simp only: of_int_le_iff)
  then have "of_int (round_half_even (q / 2 powi p)) * 2 powi p \<le> (of_int (2 ^ 53) :: rat) * 2 powi p"
    using pp by (simp only: mult_le_cancel_right_pos)
  also have "(of_int (2 ^ 53) :: rat) * 2 powi p = 2 powi (53 + p)"
    by (subst power_int_add) simp_all
  also have "53 + p = max (ilog2 q) (- 1022) + 1"
    by (simp add: p_def K_def)
  finally show ?thesis
    unfolding float_of_rat_pos [OF assms] p .
qed

lemma float_of_rat_lower:
  assumes "0 < q" "- 1022 \<le> ilog2 q"
  shows "2 powi (ilog2 q) \<le> float_of_rat q"
proof -
  define p where "p = ilog2 q - 52"
  have p: "max (ilog2 q) (- 1022) - 52 = p" using assms(2) by (simp add: p_def)
  have pp: "(0::rat) < 2 powi p" by (simp add: zero_less_power_int)
  have "(of_int (2 ^ 52) :: rat) = 2 powi (ilog2 q - p)"
    by (simp add: p_def)
  also have "\<dots> = 2 powi (ilog2 q) / 2 powi p"
    by (rule power_int_diff) simp
  also have "\<dots> \<le> q / 2 powi p"
    using pp ilog2_bounds(1) [OF assms(1)] by (intro divide_right_mono) simp_all
  finally have "2 ^ 52 \<le> round_half_even (q / 2 powi p)"
    by (rule round_half_even_ge_int)
  then have "(of_int (2 ^ 52) :: rat) \<le> of_int (round_half_even (q / 2 powi p))"
    by (simp only: of_int_le_iff)
  then have *: "(of_int (2 ^ 52) :: rat) * 2 powi p \<le> of_int (round_half_even (q / 2 powi p)) * 2 powi p"
    using pp by (simp only: mult_le_cancel_right_pos)
  have "(2::rat) powi (ilog2 q) = 2 powi (52 + p)"
    by (simp add: p_def)
  also have "\<dots> = (of_int (2 ^ 52) :: rat) * 2 powi p"
    by (subst power_int_add) simp_all
  also note *
  finally show ?thesis
    unfolding float_of_rat_pos [OF assms(1)] p .
qed

lemma float_of_rat_mono:
  assumes "0 \<le> q" "q \<le> r"
  shows "float_of_rat q \<le> float_of_rat r"
proof (cases "q = 0")
  case True
  then show ?thesis
    using float_of_rat_nonneg [of r] assms by (simp add: float_of_rat_def)
next
  case False
  with assms have q: "0 < q" and r: "0 < r" by simp_all
  define pq where "pq = max (ilog2 q) (- 1022) - 52"
  define pr where "pr = max (ilog2 r) (- 1022) - 52"
  have le: "ilog2 q \<le> ilog2 r" using q assms(2) by (rule ilog2_mono)
  show ?thesis
  proof (cases "pq = pr")
    case True
    have pp: "(0::rat) < 2 powi pr" by (simp add: zero_less_power_int)
    have "q / 2 powi pr \<le> r / 2 powi pr"
      using pp assms(2) by (intro divide_right_mono) simp_all
    then have "round_half_even (q / 2 powi pr) \<le> round_half_even (r / 2 powi pr)"
      by (rule round_half_even_mono)
    then have "(of_int (round_half_even (q / 2 powi pr)) :: rat) \<le> of_int (round_half_even (r / 2 powi pr))"
      by (simp only: of_int_le_iff)
    then have "of_int (round_half_even (q / 2 powi pr)) * 2 powi pr
        \<le> (of_int (round_half_even (r / 2 powi pr)) :: rat) * 2 powi pr"
      using pp by (simp only: mult_le_cancel_right_pos)
    then show ?thesis
      unfolding float_of_rat_pos [OF q] float_of_rat_pos [OF r]
        pq_def [symmetric] pr_def [symmetric] True .
  next
    case False
    with le have lt: "max (ilog2 q) (- 1022) < ilog2 r" and big: "- 1022 \<le> ilog2 r"
      by (auto simp add: pq_def pr_def max_def split: if_splits)
    have "float_of_rat q \<le> 2 powi (max (ilog2 q) (- 1022) + 1)"
      using q by (rule float_of_rat_upper)
    also have "\<dots> \<le> 2 powi (ilog2 r)"
    proof (rule power_int_increasing)
      show "max (ilog2 q) (- 1022) + 1 \<le> ilog2 r" using lt by linarith
    qed simp
    also have "\<dots> \<le> float_of_rat r"
      using r big by (rule float_of_rat_lower)
    finally show ?thesis .
  qed
qed

lemma float_of_rat_overflow:
  assumes "2 ^ 1024 \<le> q"
  shows "2 ^ 1024 \<le> float_of_rat q"
proof -
  have q: "0 < q" using assms by (rule less_le_trans [rotated]) simp
  have "(2::rat) powi 1024 \<le> q" using assms by simp
  then have "(2::rat) powi 1024 < 2 powi (ilog2 q + 1)"
    using ilog2_bounds(2) [OF q] by (rule le_less_trans)
  then have big: "1024 \<le> ilog2 q"
    using power_int_increasing [of "ilog2 q + 1" 1024 "2::rat"] by (cases "1024 \<le> ilog2 q") simp_all
  have "(2::rat) ^ 1024 = 2 powi 1024" by simp
  also have "\<dots> \<le> 2 powi (ilog2 q)"
    using big by (intro power_int_increasing) simp_all
  also have "\<dots> \<le> float_of_rat q"
    using q big by (intro float_of_rat_lower) simp_all
  finally show ?thesis .
qed

text \<open>
  The rounded value reaches \<open>2 ^ 1024\<close> exactly from \<open>2 ^ 1024 - 2 ^ 970\<close> on: the tie
  between the largest finite float and \<open>2 ^ 1024\<close> goes to the even significand.
\<close>

lemma round_half_even_overflow_iff:
  assumes "y < 2 ^ 53"
  shows "2 ^ 53 \<le> round_half_even y \<longleftrightarrow> 2 ^ 53 - 1 / 2 \<le> y"
proof
  assume ge: "2 ^ 53 - 1 / 2 \<le> y"
  have f: "\<lfloor>y\<rfloor> = 2 ^ 53 - 1"
  proof (rule floor_unique)
    show "of_int (2 ^ 53 - 1) \<le> y" using ge by simp
    show "y < of_int (2 ^ 53 - 1) + 1" using assms by simp
  qed
  have d: "\<not> y - of_int \<lfloor>y\<rfloor> < 1 / 2" using ge by (simp add: f)
  have odd: "odd \<lfloor>y\<rfloor>" by (simp add: f)
  show "2 ^ 53 \<le> round_half_even y"
    using d odd by (simp add: round_half_even_def Let_def f)
next
  assume r: "2 ^ 53 \<le> round_half_even y"
  show "2 ^ 53 - 1 / 2 \<le> y"
  proof (rule ccontr)
    assume "\<not> 2 ^ 53 - 1 / 2 \<le> y"
    then have lt: "y < 2 ^ 53 - 1 / 2" by simp
    have "\<lfloor>y\<rfloor> < 2 ^ 53"
      using assms by (simp add: floor_less_iff)
    then have fl: "\<lfloor>y\<rfloor> \<le> 2 ^ 53 - 1" by linarith
    show False
    proof (cases "\<lfloor>y\<rfloor> = 2 ^ 53 - 1")
      case True
      then have "y - of_int \<lfloor>y\<rfloor> < 1 / 2" using lt by simp
      then have "round_half_even y = \<lfloor>y\<rfloor>" by (simp add: round_half_even_def Let_def)
      with True r show False by simp
    next
      case False
      with fl have "\<lfloor>y\<rfloor> < 2 ^ 53 - 1" by linarith
      with round_half_even_upper [of y] r show False by linarith
    qed
  qed
qed

lemma float_of_rat_overflow_iff:
  assumes "0 \<le> q"
  shows "2 ^ 1024 \<le> float_of_rat q \<longleftrightarrow> 2 ^ 1024 - 2 ^ 970 \<le> q"
proof -
  consider "q = 0" | "0 < q" "q < 2 ^ 1023" | "2 ^ 1023 \<le> q" "q < 2 ^ 1024" | "2 ^ 1024 \<le> q"
    using assms by linarith
  then show ?thesis
  proof cases
    case 1
    then show ?thesis by (simp add: float_of_rat_def)
  next
    case 2
    have "(2::rat) powi (ilog2 q) < 2 powi 1023"
      using ilog2_bounds(1) [OF 2(1)] 2(2) by simp
    then have "ilog2 q < 1023"
      using power_int_increasing [of 1023 "ilog2 q" "2::rat"] by (cases "ilog2 q < 1023") simp_all
    then have "max (ilog2 q) (- 1022) + 1 \<le> 1023" by simp
    then have "(2::rat) powi (max (ilog2 q) (- 1022) + 1) \<le> 2 powi 1023"
      by (intro power_int_increasing) simp_all
    with float_of_rat_upper [OF 2(1)] have "float_of_rat q \<le> 2 powi 1023" by (rule order_trans)
    then have "\<not> 2 ^ 1024 \<le> float_of_rat q" by simp
    moreover have "\<not> 2 ^ 1024 - 2 ^ 970 \<le> q" using 2(2) by simp
    ultimately show ?thesis by simp
  next
    case 3
    have q: "0 < q" using 3(1) by (rule less_le_trans [rotated]) simp
    have e: "ilog2 q = 1023"
      using 3 by (intro ilog2_eqI) simp_all
    have y: "q / 2 ^ 971 < 2 ^ 53"
      using 3(2) by (simp add: divide_less_eq)
    have fl: "float_of_rat q = of_int (round_half_even (q / 2 ^ 971)) * 2 ^ 971"
      by (simp add: float_of_rat_pos [OF q] e)
    have "2 ^ 1024 \<le> float_of_rat q \<longleftrightarrow>
        (of_int (2 ^ 53) :: rat) * 2 ^ 971 \<le> of_int (round_half_even (q / 2 ^ 971)) * 2 ^ 971"
      by (simp add: fl)
    also have "\<dots> \<longleftrightarrow> (of_int (2 ^ 53) :: rat) \<le> of_int (round_half_even (q / 2 ^ 971))"
      by (rule mult_le_cancel_right_pos) simp
    also have "\<dots> \<longleftrightarrow> 2 ^ 53 \<le> round_half_even (q / 2 ^ 971)"
      by (simp only: of_int_le_iff)
    also have "\<dots> \<longleftrightarrow> 2 ^ 53 - 1 / 2 \<le> q / 2 ^ 971"
      using y by (rule round_half_even_overflow_iff)
    also have "\<dots> \<longleftrightarrow> 2 ^ 1024 - 2 ^ 970 \<le> q"
      by (simp add: le_divide_eq)
    finally show ?thesis .
  next
    case 4
    then have "2 ^ 1024 \<le> float_of_rat q" by (rule float_of_rat_overflow)
    moreover have "2 ^ 1024 - 2 ^ 970 \<le> q" using 4 by simp
    ultimately show ?thesis by simp
  qed
qed

lemma true_div_ZeroDivisionError: "true_div a b = Inl ZeroDivisionError \<longleftrightarrow> b = 0"
  by (simp add: true_div_def Let_def)

lemma true_div_nonneg:
  assumes "0 \<le> a" "0 < b"
  shows "true_div a b =
    (if 2 ^ 1024 - 2 ^ 970 \<le> (of_int a / of_int b :: rat) then Inl OverflowError
     else Inr (float_of_rat (of_int a / of_int b)))"
proof -
  have q: "(0::rat) \<le> of_int a / of_int b"
    using assms by (simp add: zero_le_divide_iff)
  have "\<bar>float_of_rat (of_int a / of_int b)\<bar> = float_of_rat (of_int a / of_int b)"
    using float_of_rat_nonneg [OF q] by simp
  then show ?thesis
    using assms(2) float_of_rat_overflow_iff [OF q]
    by (simp only: true_div_def Let_def) simp
qed

lemma true_div_mono:
  assumes "0 \<le> a" "a \<le> a'" "0 < b" "true_div a' b = Inr x'"
  shows "\<exists>x. true_div a b = Inr x \<and> x \<le> x'"
proof -
  have le: "(of_int a / of_int b :: rat) \<le> of_int a' / of_int b"
    using assms(2,3) by (intro divide_right_mono) simp_all
  have q: "(0::rat) \<le> of_int a / of_int b"
    using assms(1,3) by (simp add: zero_le_divide_iff)
  have a': "0 \<le> a'" using assms(1,2) by simp
  from assms(4) have fin: "\<not> 2 ^ 1024 - 2 ^ 970 \<le> (of_int a' / of_int b :: rat)"
    and x': "x' = float_of_rat (of_int a' / of_int b)"
    by (simp_all add: true_div_nonneg [OF a' assms(3)] split: if_splits)
  from fin le have "\<not> 2 ^ 1024 - 2 ^ 970 \<le> (of_int a / of_int b :: rat)" by linarith
  then have "true_div a b = Inr (float_of_rat (of_int a / of_int b))"
    by (simp add: true_div_nonneg [OF assms(1,3)])
  moreover have "float_of_rat (of_int a / of_int b) \<le> x'"
    unfolding x' using q le by (rule float_of_rat_mono)
  ultimately show ?thesis by simp
qed

text \<open>The float literals of the band chain, as Python's \<^verbatim>\<open>as_integer_ratio\<close> gives them.\<close>

lemma float_literals:
  "float_of_rat (2 / 10) = 3602879701896397 / 18014398509481984"
  "float_of_rat (4 / 10) = 3602879701896397 / 9007199254740992"
  "float_of_rat (6 / 10) = 5404319552844595 / 9007199254740992"
  "float_of_rat (8 / 10) = 3602879701896397 / 4503599627370496"
  by code_simp+

subsection \<open>Debt-to-revenue ratio analysis\<close>

lemma debt_band_antimono:
  assumes "x \<le> y"
  shows "debt_band y \<le> debt_band x"
  using assms by (simp add: debt_band_def)

lemma debt_band_values: "debt_band x \<in> {25, 15, 5, - 5, - 15, - 25}"
  by (simp add: debt_band_def)

lemma debt_ratio_try_not_ZeroDivisionError:
  "debt_ratio_try revenue debt \<noteq> Inl ZeroDivisionError"
proof (cases "revenue > 0 \<and> debt \<ge> 0")
  case True
  then have "true_div debt revenue \<noteq> Inl ZeroDivisionError"
    by (simp add: true_div_ZeroDivisionError)
  with True show ?thesis
    by (auto simp add: debt_ratio_try_def split: sum.splits)
next
  case False
  then show ?thesis by (auto simp add: debt_ratio_try_def)
qed

lemma debt_ratio_analysis_eq_try:
  "debt_ratio_analysis revenue debt = debt_ratio_try revenue debt"
  using debt_ratio_try_not_ZeroDivisionError [of revenue debt]
  by (simp add: debt_ratio_analysis_def split: sum.splits py_error.splits)

lemma debt_ratio_analysis_pos:
  assumes "0 < revenue" "0 \<le> debt"
  shows "debt_ratio_analysis revenue debt =
    (case true_div debt revenue of
       Inl e \<Rightarrow> Inl e
     | Inr ratio \<Rightarrow> Inr (debt_band ratio, PyFloat (py_round ratio 3)))"
  using assms by (simp add: debt_ratio_analysis_eq_try debt_ratio_try_def)


lemma debt_ratio_analysis_impacts:
  assumes "debt_ratio_analysis revenue debt = Inr (i, v)"
  shows "i \<in> {25, 15, 5, - 5, - 15, - 25, - 10}" "v \<noteq> PyStr ''Revenue is zero''"
  using assms debt_band_values
  by (auto simp add: debt_ratio_analysis_eq_try debt_ratio_try_def split: if_splits sum.splits)

lemma debt_ratio_analysis_error:
  assumes "debt_ratio_analysis revenue debt = Inl err"
  shows "err = OverflowError"
  using assms debt_ratio_try_not_ZeroDivisionError [of revenue debt]
  by (cases err) (simp_all add: debt_ratio_analysis_eq_try)





text \<open>
  Claim C8. Debt ratio monotonicity: for a fixed positive revenue and non-negative debts
  \<open>d1 \<le> d2\<close>, whenever the analysis computes an impact for \<open>d2\<close> it computes one for
  \<open>d1\<close> too, and the impact for \<open>d2\<close> is less than or equal to the impact for \<open>d1\<close>.
\<close>

theorem debt_ratio_impact_monotone:
  assumes "0 < revenue" "0 \<le> d1" "d1 \<le> d2"
    and "debt_ratio_analysis revenue d2 = Inr (i2, v2)"
  shows "\<exists>i1 v1. debt_ratio_analysis revenue d1 = Inr (i1, v1) \<and> i2 \<le> i1"
proof -
  have d2: "0 \<le> d2" using assms(2,3) by simp
  from assms(4) obtain x2 where x2: "true_div d2 revenue = Inr x2" and i2: "i2 = debt_band x2"
    by (auto simp add: debt_ratio_analysis_pos [OF assms(1) d2] split: sum.splits)
  from true_div_mono [OF assms(2,3,1) x2]
  obtain x1 where x1: "true_div d1 revenue = Inr x1" and le: "x1 \<le> x2" by blast
  have "debt_ratio_analysis revenue d1 = Inr (debt_band x1, PyFloat (py_round x1 3))"
    by (simp add: debt_ratio_analysis_pos [OF assms(1,2)] x1)
  moreover have "i2 \<le> debt_band x1"
    unfolding i2 using le by (rule debt_band_antimono)
  ultimately show ?thesis by blast
qed

theorem debt_ratio_impact_monotone_witness:
  "(0::int) < 1000000000 \<and> (0::int) \<le> 150000000 \<and> (150000000::int) \<le> 900000000 \<and>
   debt_ratio_analysis 1000000000 900000000 =
     Inr (- 15, PyFloat (8106479329266893 / 9007199254740992)) \<and>
   (\<exists>i1 v1. debt_ratio_analysis 1000000000 150000000 = Inr (i1, v1) \<and> - 15 \<le> i1)"
proof -
  have h: "debt_ratio_analysis 1000000000 900000000 =
      Inr (- 15, PyFloat (8106479329266893 / 9007199254740992))"
    by code_simp
  have "\<exists>i1 v1. debt_ratio_analysis 1000000000 150000000 = Inr (i1, v1) \<and> - 15 \<le> i1"
    by (rule debt_ratio_impact_monotone [OF _ _ _ h]) simp_all
  with h show ?thesis by simp
qed

subsection \<open>Market capitalisation analysis\<close>

lemma market_cap_analysis_error:
  assumes "market_cap_analysis cap cur = Inl err"
  shows "err = OverflowError"
proof (cases err)
  case ZeroDivisionError
  with assms show ?thesis
    by (auto simp add: market_cap_analysis_def Let_def true_div_ZeroDivisionError
        split: if_splits sum.splits)
qed

lemma market_cap_band_values: "market_cap_band x \<in> {0, 5, 10, 15, 20}"
  by (simp add: market_cap_band_def)

lemma market_cap_analysis_impacts:
  assumes "market_cap_analysis cap cur = Inr (i, v)"
  shows "i \<in> {0, 5, 10, 15, 20}"
  using assms market_cap_band_values
  by (auto simp add: market_cap_analysis_def Let_def split: if_splits sum.splits)

text \<open>
  On quotients by \<open>10^9\<close> the rounding never crosses one of the four thresholds, so the
  float comparisons of the band chain are comparisons of the integer market capitalisation.
\<close>

lemma market_cap_analysis_eq:
  "market_cap_analysis cap cur =
     (if cap \<le> 0 then Inr (0, PyStr ''Data unavailable'')
      else if 2 ^ 1024 - 2 ^ 970
                \<le> (of_int (if cur = ''USD'' then cap * 83 else cap) / 1000000000 :: rat)
        then Inl OverflowError
      else Inr (market_cap_band
                  (float_of_rat (of_int (if cur = ''USD'' then cap * 83 else cap) / 1000000000)),
                PyFloat (py_round
                  (float_of_rat (of_int (if cur = ''USD'' then cap * 83 else cap) / 1000000000))
                  2)))"
proof (cases "0 < cap")
  case True
  then have "0 \<le> (if cur = ''USD'' then cap * 83 else cap)" by simp
  from true_div_nonneg [OF this, of 1000000000] True show ?thesis
    by (simp add: market_cap_analysis_def Let_def)
next
  case False
  then show ?thesis by (simp add: market_cap_analysis_def)
qed






subsection \<open>News sentiment analysis\<close>

text \<open>The loop counts the headlines of each kind.\<close>

lemma sentiment_loop_counts:
  "sentiment_loop (impact, pos, neg) hs =
     (impact
        + 5 * int (length (filter (\<lambda>h. \<not> has_negative (full_text h) \<and> has_positive (full_text h)) hs))
        - 5 * int (length (filter (\<lambda>h. has_negative (full_text h)) hs)),
      pos + int (length (filter (\<lambda>h. \<not> has_negative (full_text h) \<and> has_positive (full_text h)) hs)),
      neg + int (length (filter (\<lambda>h. has_negative (full_text h)) hs)))"
  by (induction hs arbitrary: impact pos neg) (simp_all add: sentiment_step_def)

lemma news_sentiment_analysis_counts:
  "news_sentiment_analysis hs =
     (5 * int (length (filter (\<lambda>h. \<not> has_negative (full_text h) \<and> has_positive (full_text h)) hs))
        - 5 * int (length (filter (\<lambda>h. has_negative (full_text h)) hs)),
      int (length (filter (\<lambda>h. \<not> has_negative (full_text h) \<and> has_positive (full_text h)) hs)),
      int (length (filter (\<lambda>h. has_negative (full_text h)) hs)))"
  by (simp add: news_sentiment_analysis_def sentiment_loop_counts)

lemma has_negative_iff: "has_negative txt \<longleftrightarrow> (\<exists>k \<in> set negative_keywords. sublist k txt)"
  by (simp add: has_negative_def list_ex_iff)

lemma has_positive_iff: "has_positive txt \<longleftrightarrow> (\<exists>k \<in> set positive_keywords. sublist k txt)"
  by (simp add: has_positive_def list_ex_iff)

text \<open>
  Claim C4. A headline whose lowered text contains a negative keyword is counted as
  negative only: the step subtracts 5 and increments the negative count, whether or not a
  positive keyword occurs too. A headline with a positive and no negative keyword adds 5
  and increments the positive count. A headline with no keyword of either list leaves
  the state unchanged. The totals are the numbers of the headlines of each kind, and the
  total impact is 5 times the positive count minus 5 times the negative count.
\<close>

theorem negative_takes_precedence:
  "((\<exists>k \<in> set negative_keywords. sublist k (full_text h)) \<longrightarrow>
      sentiment_step (impact, pos, neg) h = (impact - 5, pos, neg + 1)) \<and>
   ((\<forall>k \<in> set negative_keywords. \<not> sublist k (full_text h)) \<and>
    (\<exists>k \<in> set positive_keywords. sublist k (full_text h)) \<longrightarrow>
      sentiment_step (impact, pos, neg) h = (impact + 5, pos + 1, neg)) \<and>
   ((\<forall>k \<in> set negative_keywords. \<not> sublist k (full_text h)) \<and>
    (\<forall>k \<in> set positive_keywords. \<not> sublist k (full_text h)) \<longrightarrow>
      sentiment_step (impact, pos, neg) h = (impact, pos, neg)) \<and>
   (news_sentiment_analysis hs = (news_total, positive_count, negative_count) \<longrightarrow>
      news_total = 5 * positive_count - 5 * negative_count \<and>
      negative_count = int (length (filter (\<lambda>h. has_negative (full_text h)) hs)) \<and>
      positive_count = int (length (filter
        (\<lambda>h. \<not> has_negative (full_text h) \<and> has_positive (full_text h)) hs)))"
  by (auto simp add: sentiment_step_def has_negative_iff has_positive_iff
      news_sentiment_analysis_counts)

theorem negative_takes_precedence_witness:
  "has_negative (full_text [''title'' \<mapsto> ''Record PROFIT despite fraud probe'']) \<and>
   has_positive (full_text [''title'' \<mapsto> ''Record PROFIT despite fraud probe'']) \<and>
   sentiment_step (0, 0, 0) [''title'' \<mapsto> ''Record PROFIT despite fraud probe'']
     = (- 5, 0, 1) \<and>
   sentiment_step (0, 0, 0) [''title'' \<mapsto> ''Company reports record profit'']
     = (5, 1, 0) \<and>
   sentiment_step (0, 0, 0)
       [''title'' \<mapsto> ''Annual general meeting'', ''description'' \<mapsto> ''Agenda published'']
     = (0, 0, 0) \<and>
   news_sentiment_analysis
       [[''title'' \<mapsto> ''Company reports record profit''],
        [''title'' \<mapsto> ''Fraud investigation launched'']]
     = (0, 1, 1) \<and>
   (0::int) = 5 * 1 - 5 * 1"
proof -
  let ?both = "[''title'' \<mapsto> ''Record PROFIT despite fraud probe'']"
  let ?good = "[''title'' \<mapsto> ''Company reports record profit'']"
  let ?none = "[''title'' \<mapsto> ''Annual general meeting'', ''description'' \<mapsto> ''Agenda published'']"
  let ?bad = "[''title'' \<mapsto> ''Fraud investigation launched'']"
  have n1: "\<exists>k \<in> set negative_keywords. sublist k (full_text ?both)" by code_simp
  have p1: "has_positive (full_text ?both)" by code_simp
  have n2: "\<forall>k \<in> set negative_keywords. \<not> sublist k (full_text ?good)" by code_simp
  have p2: "\<exists>k \<in> set positive_keywords. sublist k (full_text ?good)" by code_simp
  have n3: "\<forall>k \<in> set negative_keywords. \<not> sublist k (full_text ?none)" by code_simp
  have p3: "\<forall>k \<in> set positive_keywords. \<not> sublist k (full_text ?none)" by code_simp
  have a: "news_sentiment_analysis [?good, ?bad] = (0, 1, 1)" by code_simp
  from negative_takes_precedence [of ?both 0 0 0 "[?good, ?bad]" 0 1 1] n1 a
  have s1: "sentiment_step (0, 0, 0) ?both = (0 - 5, 0, 0 + 1)"
    and t: "(0::int) = 5 * 1 - 5 * 1"
    by blast+
  from negative_takes_precedence [of ?good 0 0 0 "[]" 0 0 0] n2 p2
  have s2: "sentiment_step (0, 0, 0) ?good = (0 + 5, 0 + 1, 0)" by blast
  from negative_takes_precedence [of ?none 0 0 0 "[]" 0 0 0] n3 p3
  have s3: "sentiment_step (0, 0, 0) ?none = (0, 0, 0)" by blast
  have h1: "has_negative (full_text ?both)" using n1 by (simp only: has_negative_iff)
  from h1 p1 s1 s2 s3 a t show ?thesis by (intro conjI) simp_all
qed

subsection \<open>The score\<close>

lemma calculate_credit_score_Inr:
  assumes "calculate_credit_score (Some fd) hs = Inr (score, e)"
  shows "\<exists>di rv ci bv ni p n.
    debt_ratio_analysis (get_default (total_revenue fd) 0) (get_default (total_debt fd) 0)
      = Inr (di, rv) \<and>
    market_cap_analysis (get_default (market_cap fd) 0) (get_default (currency fd) ''INR'')
      = Inr (ci, bv) \<and>
    news_sentiment_analysis hs = (ni, p, n) \<and>
    score = max 0 (min 100 (50 + di + ci + ni)) \<and>
    e = \<lparr>base_score = 50, debt_ratio_impact = di, market_cap_impact = ci,
         news_sentiment_impact = ni, error = None, debt_ratio = Some rv,
         market_cap_billions = Some bv, positive_news_count = Some p,
         negative_news_count = Some n, final_score = Some score\<rparr>"
  using assms
  by (auto simp add: calculate_credit_score_def Let_def split: sum.splits prod.splits)

lemma calculate_credit_score_Inl:
  assumes "calculate_credit_score fin hs = Inl err"
  shows "err = OverflowError"
  using assms debt_ratio_analysis_error market_cap_analysis_error
  by (auto simp add: calculate_credit_score_def Let_def split: option.splits sum.splits prod.splits)

text \<open>
  Claim C1. For every present snapshot and every headline list, the final score returned
  by \<open>calculate_credit_score\<close> lies in 0..100: it is the base 50 plus the three impacts,
  clamped, and it is the value stored under \<^verbatim>\<open>'final_score'\<close>. The only other outcome
  of the call is the \<^verbatim>\<open>OverflowError\<close> of a division.
\<close>

theorem final_score_clamped:
  "case calculate_credit_score (Some fd) hs of
     Inl err \<Rightarrow> err = OverflowError
   | Inr (score, e) \<Rightarrow>
       0 \<le> score \<and> score \<le> 100 \<and> final_score e = Some score \<and> base_score e = 50 \<and>
       score = max 0 (min 100
         (50 + debt_ratio_impact e + market_cap_impact e + news_sentiment_impact e))"
proof (cases "calculate_credit_score (Some fd) hs")
  case (Inl err)
  then show ?thesis using calculate_credit_score_Inl [OF Inl] by simp
next
  case (Inr r)
  obtain score e where r: "r = (score, e)" by (cases r)
  from calculate_credit_score_Inr [OF Inr [unfolded r]] show ?thesis
    unfolding Inr r by auto
qed

theorem final_score_clamped_witness:
  "calculate_credit_score
     (Some \<lparr>ticker = ''TCS.NS'', company_name = ''Tata Consultancy Services'',
            total_revenue = Some 1000000000, total_debt = Some 150000000,
            market_cap = Some 600000000000, currency = Some ''INR'',
            sector = ''Technology'', industry = ''IT Services''\<rparr>)
     [[''title'' \<mapsto> ''Company reports record profit''],
      [''title'' \<mapsto> ''Strong growth'', ''description'' \<mapsto> ''Quarterly results''],
      [''title'' \<mapsto> ''New DEAL signed'']]
   = Inr (100,
       \<lparr>base_score = 50, debt_ratio_impact = 25, market_cap_impact = 20,
        news_sentiment_impact = 15, error = None,
        debt_ratio = Some (PyFloat (5404319552844595 / 36028797018963968)),
        market_cap_billions = Some (PyFloat 600),
        positive_news_count = Some 3, negative_news_count = Some 0,
        final_score = Some 100\<rparr>) \<and>
   (100::int) = max 0 (min 100 (50 + 25 + 20 + 15))"
proof -
  let ?fd = "\<lparr>ticker = ''TCS.NS'', company_name = ''Tata Consultancy Services'',
            total_revenue = Some 1000000000, total_debt = Some 150000000,
            market_cap = Some 600000000000, currency = Some ''INR'',
            sector = ''Technology'', industry = ''IT Services''\<rparr>"
  let ?hs = "[[''title'' \<mapsto> ''Company reports record profit''],
      [''title'' \<mapsto> ''Strong growth'', ''description'' \<mapsto> ''Quarterly results''],
      [''title'' \<mapsto> ''New DEAL signed'']]"
  have c: "calculate_credit_score (Some ?fd) ?hs
   = Inr (100,
       \<lparr>base_score = 50, debt_ratio_impact = 25, market_cap_impact = 20,
        news_sentiment_impact = 15, error = None,
        debt_ratio = Some (PyFloat (5404319552844595 / 36028797018963968)),
        market_cap_billions = Some (PyFloat 600),
        positive_news_count = Some 3, negative_news_count = Some 0,
        final_score = Some 100\<rparr>)"
    by code_simp
  from final_score_clamped [of ?fd ?hs] have "(100::int) = max 0 (min 100 (50 + 25 + 20 + 15))"
    unfolding c by simp
  with c show ?thesis by simp
qed

text \<open>
  Claim C9. The \<^verbatim>\<open>ZeroDivisionError\<close> handler of the debt analysis is unreachable: the
  body of the \<^verbatim>\<open>try\<close> block never raises that exception, so the statement behaves as
  its body; the analysis never yields the impact -20, and no explanation returned by
  \<open>calculate_credit_score\<close> has the impact -20 or the marker \<^verbatim>\<open>'Revenue is zero'\<close>.
\<close>

theorem zero_division_handler_unreachable:
  "debt_ratio_try revenue debt \<noteq> Inl ZeroDivisionError \<and>
   debt_ratio_analysis revenue debt = debt_ratio_try revenue debt \<and>
   debt_ratio_analysis revenue debt \<noteq> Inr (- 20, v) \<and>
   (calculate_credit_score fin hs = Inr (score, e) \<longrightarrow>
      debt_ratio_impact e \<noteq> - 20 \<and> debt_ratio e \<noteq> Some (PyStr ''Revenue is zero''))"
proof (intro conjI impI)
  show "debt_ratio_try revenue debt \<noteq> Inl ZeroDivisionError"
    by (rule debt_ratio_try_not_ZeroDivisionError)
  show "debt_ratio_analysis revenue debt = debt_ratio_try revenue debt"
    by (rule debt_ratio_analysis_eq_try)
  show "debt_ratio_analysis revenue debt \<noteq> Inr (- 20, v)"
    using debt_ratio_analysis_impacts(1) [of revenue debt "- 20" v] by auto
next
  assume c: "calculate_credit_score fin hs = Inr (score, e)"
  show "debt_ratio_impact e \<noteq> - 20"
  proof (cases fin)
    case None
    with c show ?thesis by (auto simp add: calculate_credit_score_def)
  next
    case (Some fd)
    from calculate_credit_score_Inr [OF c [unfolded Some]] debt_ratio_analysis_impacts(1)
    show ?thesis by fastforce
  qed
  show "debt_ratio e \<noteq> Some (PyStr ''Revenue is zero'')"
  proof (cases fin)
    case None
    with c show ?thesis by (auto simp add: calculate_credit_score_def)
  next
    case (Some fd)
    from calculate_credit_score_Inr [OF c [unfolded Some]] debt_ratio_analysis_impacts(2)
    show ?thesis by fastforce
  qed
qed

theorem zero_division_handler_unreachable_witness:
  "calculate_credit_score
     (Some \<lparr>ticker = ''NEW.NS'', company_name = ''Unknown'',
            total_revenue = Some 0, total_debt = Some 5000000,
            market_cap = Some 0, currency = Some ''INR'',
            sector = ''Unknown'', industry = ''Unknown''\<rparr>) []
   = Inr (40,
       \<lparr>base_score = 50, debt_ratio_impact = - 10, market_cap_impact = 0,
        news_sentiment_impact = 0, error = None,
        debt_ratio = Some (PyStr ''Data unavailable''),
        market_cap_billions = Some (PyStr ''Data unavailable''),
        positive_news_count = Some 0, negative_news_count = Some 0,
        final_score = Some 40\<rparr>) \<and>
   debt_ratio_try 0 5000000 \<noteq> Inl ZeroDivisionError \<and>
   debt_ratio_analysis 0 5000000 = debt_ratio_try 0 5000000 \<and>
   debt_ratio_analysis 0 5000000 \<noteq> Inr (- 20, PyStr ''Revenue is zero'') \<and>
   (- 10 :: int) \<noteq> - 20"
proof -
  let ?fd = "\<lparr>ticker = ''NEW.NS'', company_name = ''Unknown'',
            total_revenue = Some 0, total_debt = Some 5000000,
            market_cap = Some 0, currency = Some ''INR'',
            sector = ''Unknown'', industry = ''Unknown''\<rparr>"
  let ?e = "\<lparr>base_score = 50, debt_ratio_impact = - 10, market_cap_impact = 0,
        news_sentiment_impact = 0, error = None,
        debt_ratio = Some (PyStr ''Data unavailable''),
        market_cap_billions = Some (PyStr ''Data unavailable''),
        positive_news_count = Some 0, negative_news_count = Some 0,
        final_score = Some 40\<rparr>"
  have c: "calculate_credit_score (Some ?fd) [] = Inr (40, ?e)"
    by code_simp
  from zero_division_handler_unreachable [of 0 5000000 "PyStr ''Revenue is zero''" "Some ?fd" "[]" 40 ?e] c
  have "debt_ratio_try 0 5000000 \<noteq> Inl ZeroDivisionError"
    and "debt_ratio_analysis 0 5000000 = debt_ratio_try 0 5000000"
    and "debt_ratio_analysis 0 5000000 \<noteq> Inr (- 20, PyStr ''Revenue is zero'')"
    and "debt_ratio_impact ?e \<noteq> - 20"
    by blast+
  with c show ?thesis by (intro conjI) simp_all
qed

subsection \<open>Absent snapshot\<close>

text \<open>
  Claim C2, as amended. For every headline list, an absent snapshot gives the score 0 and
  an explanation that holds only the base score 0, the three impacts 0 and the error marker
  \<^verbatim>\<open>'Invalid ticker or data unavailable'\<close>; none of the three analyses runs: the result
  does not depend on the headlines and carries no ratio, market capitalisation, news
  count or final score.
\<close>

theorem absent_snapshot_short_circuit:
  "calculate_credit_score None hs =
     Inr (0, \<lparr>base_score = 0, debt_ratio_impact = 0, market_cap_impact = 0,
              news_sentiment_impact = 0,
              error = Some ''Invalid ticker or data unavailable'',
              debt_ratio = None, market_cap_billions = None,
              positive_news_count = None, negative_news_count = None,
              final_score = None\<rparr>)"
  by (simp add: calculate_credit_score_def)

text \<open>
  The claim as stated fails on the text of the marker: the code stores
  \<^verbatim>\<open>'Invalid ticker or data unavailable'\<close>, not
  \<^verbatim>\<open>'invalid instrument or data unavailable'\<close>.
\<close>

theorem absent_snapshot_marker_differs:
  "calculate_credit_score None [] \<noteq>
     Inr (0, \<lparr>base_score = 0, debt_ratio_impact = 0, market_cap_impact = 0,
              news_sentiment_impact = 0,
              error = Some ''invalid instrument or data unavailable'',
              debt_ratio = None, market_cap_billions = None,
              positive_news_count = None, negative_news_count = None,
              final_score = None\<rparr>) \<and>
   calculate_credit_score None [] =
     Inr (0, \<lparr>base_score = 0, debt_ratio_impact = 0, market_cap_impact = 0,
              news_sentiment_impact = 0,
              error = Some ''Invalid ticker or data unavailable'',
              debt_ratio = None, market_cap_billions = None,
              positive_news_count = None, negative_news_count = None,
              final_score = None\<rparr>)"
  by (simp add: calculate_credit_score_def)

subsection \<open>Plain-language summary\<close>

lemma market_position_cases:
  assumes "m \<in> {0, 5, 10, 15, 20}"
  shows "market_position m =
     (if m \<ge> 15 then ([''strong market position''], [])
      else if m \<ge> 10 then ([''solid market presence''], [])
      else ([], [''limited market size'']))"
  using assms by (auto simp add: market_position_def)

lemma summary_lists_market:
  "fst (summary_lists e) =
     fst (debt_position (debt_ratio_impact e)) @ fst (market_position (market_cap_impact e)) @
     fst (news_position (news_sentiment_impact e))"
  "snd (summary_lists e) =
     snd (debt_position (debt_ratio_impact e)) @ snd (market_position (market_cap_impact e)) @
     snd (news_position (news_sentiment_impact e))"
  by (simp_all add: summary_lists_def split: prod.splits)

text \<open>
  Claim C10. For a market capitalisation impact among 0, 5, 10, 15 and 20, the market
  block of the summary contributes exactly one entry: a strength when the impact is at
  least 10 (which then is among the strengths of the summary), the concern
  \<^verbatim>\<open>'limited market size'\<close> when it is at most 5 (which then is among the concerns of the
  summary). The debt block contributes nothing for the impact -5, and the news block
  nothing for the impact 0. The scorer produces only these five market capitalisation
  impacts, and a snapshot whose market capitalisation is unavailable gets the impact 0
  and so that concern.
\<close>

theorem market_position_always_classified:
  "(market_cap_impact e \<in> {0, 5, 10, 15, 20} \<longrightarrow>
      length (fst (market_position (market_cap_impact e))) +
        length (snd (market_position (market_cap_impact e))) = 1 \<and>
      (market_cap_impact e \<ge> 10 \<longrightarrow>
         snd (market_position (market_cap_impact e)) = [] \<and>
         fst (market_position (market_cap_impact e)) =
           [if market_cap_impact e \<ge> 15 then ''strong market position''
            else ''solid market presence''] \<and>
         set (fst (market_position (market_cap_impact e))) \<subseteq> set (fst (summary_lists e))) \<and>
      (market_cap_impact e \<le> 5 \<longrightarrow>
         market_position (market_cap_impact e) = ([], [''limited market size'']) \<and>
         ''limited market size'' \<in> set (snd (summary_lists e)))) \<and>
   debt_position (- 5) = ([], []) \<and>
   news_position 0 = ([], []) \<and>
   (calculate_credit_score (Some fd) hs = Inr (score, e') \<longrightarrow>
      market_cap_impact e' \<in> {0, 5, 10, 15, 20} \<and>
      (get_default (market_cap fd) 0 \<le> 0 \<longrightarrow>
         market_cap_impact e' = 0 \<and>
         market_cap_billions e' = Some (PyStr ''Data unavailable'') \<and>
         ''limited market size'' \<in> set (snd (summary_lists e'))))"
proof (intro conjI impI)
  assume m: "market_cap_impact e \<in> {0, 5, 10, 15, 20}"
  show "length (fst (market_position (market_cap_impact e))) +
        length (snd (market_position (market_cap_impact e))) = 1"
    by (simp add: market_position_cases [OF m])
  {
    assume "market_cap_impact e \<ge> 10"
    then show "snd (market_position (market_cap_impact e)) = []"
      and "fst (market_position (market_cap_impact e)) =
           [if market_cap_impact e \<ge> 15 then ''strong market position''
            else ''solid market presence'']"
      by (simp_all add: market_position_cases [OF m])
    show "set (fst (market_position (market_cap_impact e))) \<subseteq> set (fst (summary_lists e))"
      by (auto simp add: summary_lists_market)
  }
  {
    assume "market_cap_impact e \<le> 5"
    then show "market_position (market_cap_impact e) = ([], [''limited market size''])"
      using m by (auto simp add: market_position_cases)
    then show "''limited market size'' \<in> set (snd (summary_lists e))"
      by (simp add: summary_lists_market)
  }
next
  show "debt_position (- 5) = ([], [])" by (simp add: debt_position_def)
  show "news_position 0 = ([], [])" by (simp add: news_position_def)
next
  assume c: "calculate_credit_score (Some fd) hs = Inr (score, e')"
  from calculate_credit_score_Inr [OF c] obtain di rv ci bv ni p n where
    mc: "market_cap_analysis (get_default (market_cap fd) 0) (get_default (currency fd) ''INR'')
          = Inr (ci, bv)"
    and e': "market_cap_impact e' = ci" "market_cap_billions e' = Some bv"
    by auto
  show "market_cap_impact e' \<in> {0, 5, 10, 15, 20}"
    using market_cap_analysis_impacts [OF mc] by (simp add: e')
  {
    assume z: "get_default (market_cap fd) 0 \<le> 0"
    with mc have "ci = 0" "bv = PyStr ''Data unavailable''"
      by (simp_all add: market_cap_analysis_eq)
    then show "market_cap_impact e' = 0"
      and "market_cap_billions e' = Some (PyStr ''Data unavailable'')"
      by (simp_all add: e')
    then show "''limited market size'' \<in> set (snd (summary_lists e'))"
      by (simp add: summary_lists_market market_position_def)
  }
qed

theorem market_position_always_classified_witness:
  "market_position 10 = ([''solid market presence''], []) \<and>
   calculate_credit_score
     (Some \<lparr>ticker = ''NEW.NS'', company_name = ''Newco'',
            total_revenue = Some 1000, total_debt = Some 100,
            market_cap = None, currency = None,
            sector = ''Unknown'', industry = ''Unknown''\<rparr>) []
   = Inr (75,
       \<lparr>base_score = 50, debt_ratio_impact = 25, market_cap_impact = 0,
        news_sentiment_impact = 0, error = None,
        debt_ratio = Some (PyFloat (3602879701896397 / 36028797018963968)),
        market_cap_billions = Some (PyStr ''Data unavailable''),
        positive_news_count = Some 0, negative_news_count = Some 0,
        final_score = Some 75\<rparr>) \<and>
   summary_lists
       \<lparr>base_score = 50, debt_ratio_impact = 25, market_cap_impact = 0,
        news_sentiment_impact = 0, error = None,
        debt_ratio = Some (PyFloat (3602879701896397 / 36028797018963968)),
        market_cap_billions = Some (PyStr ''Data unavailable''),
        positive_news_count = Some 0, negative_news_count = Some 0,
        final_score = Some 75\<rparr>
     = ([''excellent debt management''], [''limited market size'']) \<and>
   ''solid market presence'' \<in> set (fst (summary_lists
       \<lparr>base_score = 50, debt_ratio_impact = - 5, market_cap_impact = 10,
        news_sentiment_impact = 0, error = None,
        debt_ratio = None, market_cap_billions = None,
        positive_news_count = None, negative_news_count = None,
        final_score = None\<rparr>))"
proof -
  let ?fd = "\<lparr>ticker = ''NEW.NS'', company_name = ''Newco'',
            total_revenue = Some 1000, total_debt = Some 100,
            market_cap = None, currency = None,
            sector = ''Unknown'', industry = ''Unknown''\<rparr>"
  let ?e' = "\<lparr>base_score = 50, debt_ratio_impact = 25, market_cap_impact = 0,
        news_sentiment_impact = 0, error = None,
        debt_ratio = Some (PyFloat (3602879701896397 / 36028797018963968)),
        market_cap_billions = Some (PyStr ''Data unavailable''),
        positive_news_count = Some 0, negative_news_count = Some 0,
        final_score = Some 75\<rparr>"
  let ?e = "\<lparr>base_score = 50, debt_ratio_impact = - 5, market_cap_impact = 10,
        news_sentiment_impact = 0, error = None,
        debt_ratio = None, market_cap_billions = None,
        positive_news_count = None, negative_news_count = None,
        final_score = None\<rparr>"
  have c: "calculate_credit_score (Some ?fd) [] = Inr (75, ?e')" by code_simp
  have z: "get_default (market_cap ?fd) 0 \<le> 0" by (simp add: get_default_def)
  have m: "market_cap_impact ?e \<in> {0, 5, 10, 15, 20}" "market_cap_impact ?e \<ge> 10"
    by simp_all
  have m': "market_cap_impact ?e' \<in> {0, 5, 10, 15, 20}" "market_cap_impact ?e' \<le> 5"
    by simp_all
  from market_position_always_classified [of ?e ?fd "[]" 75 ?e'] m c z
  have s: "fst (market_position (market_cap_impact ?e)) =
           [if market_cap_impact ?e \<ge> 15 then ''strong market position''
            else ''solid market presence'']"
    and s0: "snd (market_position (market_cap_impact ?e)) = []"
    and sub: "set (fst (market_position (market_cap_impact ?e))) \<subseteq> set (fst (summary_lists ?e))"
    and lim: "''limited market size'' \<in> set (snd (summary_lists ?e'))"
    by blast+
  from market_position_always_classified [of ?e' ?fd "[]" 75 ?e'] m'
  have l: "market_position (market_cap_impact ?e') = ([], [''limited market size''])"
    by blast
  have mp: "market_position 10 = ([''solid market presence''], [])"
    using s s0 by (simp add: prod_eq_iff)
  have inn: "''solid market presence'' \<in> set (fst (summary_lists ?e))"
    using sub s by simp
  have sl: "summary_lists ?e' = ([''excellent debt management''], [''limited market size''])"
    using l by (simp add: summary_lists_def debt_position_def news_position_def)
  from mp c sl inn show ?thesis by (intro conjI)
qed

text \<open>
  Claim C7, as amended. When the list of concerns has exactly one element, the sentence
  for the concerns begins with \<^verbatim>\<open>However, \<close> if at least one strength was stated and
  with \<^verbatim>\<open>Primary concerns include \<close> if none was, and the summary is the overall
  sentence, the sentence for the strengths, this sentence and the recommendation, joined
  by single spaces. When the list has two or more elements, the sentence begins with
  \<^verbatim>\<open>Areas of concern include \<close> whether or not a strength was stated.
\<close>

theorem concern_lead_in:
  "(summary_lists e = (strengths, [c]) \<longrightarrow>
      concerns_sentence strengths [c] =
        [if strengths \<noteq> [] then ''However, attention should be paid to '' @ c @ ''.''
         else ''Primary concerns include '' @ c @ ''.''] \<and>
      (strengths \<noteq> [] \<longrightarrow> prefix ''However, '' (hd (concerns_sentence strengths [c]))) \<and>
      (strengths = [] \<longrightarrow>
         prefix ''Primary concerns include '' (hd (concerns_sentence strengths [c]))) \<and>
      generate_plain_language_summary score e name =
        join '' ''
          ([''Based on our comprehensive analysis, '' @ name @ '' '' @
              overall_assessment score @ ''.''] @
           strengths_sentence strengths @
           [if strengths \<noteq> [] then ''However, attention should be paid to '' @ c @ ''.''
            else ''Primary concerns include '' @ c @ ''.''] @
           [recommendation score])) \<and>
   (summary_lists e = (strengths, concerns) \<and> 2 \<le> length concerns \<longrightarrow>
      concerns_sentence strengths concerns =
        [''Areas of concern include '' @ join '', '' (butlast concerns) @ '', and '' @
         last concerns @ ''.''] \<and>
      prefix ''Areas of concern include '' (hd (concerns_sentence strengths concerns)))"
  by (auto simp add: concerns_sentence_def generate_plain_language_summary_def)

theorem concern_lead_in_witness:
  "generate_plain_language_summary 75
       \<lparr>base_score = 50, debt_ratio_impact = 25, market_cap_impact = 0,
        news_sentiment_impact = 0, error = None,
        debt_ratio = None, market_cap_billions = None,
        positive_news_count = None, negative_news_count = None,
        final_score = Some 75\<rparr>
       ''Newco''
     = ''Based on our comprehensive analysis, Newco demonstrates strong financial health. The company benefits from excellent debt management. However, attention should be paid to limited market size. This represents a solid investment-grade credit profile.'' \<and>
   generate_plain_language_summary 45
       \<lparr>base_score = 50, debt_ratio_impact = - 5, market_cap_impact = 0,
        news_sentiment_impact = 0, error = None,
        debt_ratio = None, market_cap_billions = None,
        positive_news_count = None, negative_news_count = None,
        final_score = Some 45\<rparr>
       ''Newco''
     = ''Based on our comprehensive analysis, Newco shows concerning credit indicators. Primary concerns include limited market size. Investors should carefully evaluate the risk-reward profile.'' \<and>
   concerns_sentence [] [''high debt burden'', ''limited market size'']
     = [''Areas of concern include high debt burden, and limited market size.'']"
proof -
  let ?e1 = "\<lparr>base_score = 50, debt_ratio_impact = 25, market_cap_impact = 0,
        news_sentiment_impact = 0, error = None,
        debt_ratio = None, market_cap_billions = None,
        positive_news_count = None, negative_news_count = None,
        final_score = Some 75\<rparr>"
  let ?e2 = "\<lparr>base_score = 50, debt_ratio_impact = - 5, market_cap_impact = 0,
        news_sentiment_impact = 0, error = None,
        debt_ratio = None, market_cap_billions = None,
        positive_news_count = None, negative_news_count = None,
        final_score = Some 45\<rparr>"
  let ?e3 = "\<lparr>base_score = 50, debt_ratio_impact = - 10, market_cap_impact = 0,
        news_sentiment_impact = 0, error = None,
        debt_ratio = None, market_cap_billions = None,
        positive_news_count = None, negative_news_count = None,
        final_score = Some 40\<rparr>"
  have s1: "summary_lists ?e1 = ([''excellent debt management''], [''limited market size''])"
    by code_simp
  have s2: "summary_lists ?e2 = ([], [''limited market size''])"
    by code_simp
  have s3: "summary_lists ?e3 = ([], [''high debt burden'', ''limited market size'']) \<and>
      2 \<le> length [''high debt burden'', ''limited market size'']"
    by code_simp
  from concern_lead_in [of ?e1 "[''excellent debt management'']" "''limited market size''"
      75 "''Newco''" "[]"] s1
  have "generate_plain_language_summary 75 ?e1 ''Newco'' =
        join '' ''
          ([''Based on our comprehensive analysis, '' @ ''Newco'' @ '' '' @
              overall_assessment 75 @ ''.''] @
           strengths_sentence [''excellent debt management''] @
           [if [''excellent debt management''] \<noteq> []
            then ''However, attention should be paid to '' @ ''limited market size'' @ ''.''
            else ''Primary concerns include '' @ ''limited market size'' @ ''.''] @
           [recommendation 75])"
    by blast
  also have "\<dots> = ''Based on our comprehensive analysis, Newco demonstrates strong financial health. The company benefits from excellent debt management. However, attention should be paid to limited market size. This represents a solid investment-grade credit profile.''"
    by code_simp
  finally have g1: "generate_plain_language_summary 75 ?e1 ''Newco'' = ''Based on our comprehensive analysis, Newco demonstrates strong financial health. The company benefits from excellent debt management. However, attention should be paid to limited market size. This represents a solid investment-grade credit profile.''" .
  from concern_lead_in [of ?e2 "[]" "''limited market size''" 45 "''Newco''" "[]"] s2
  have "generate_plain_language_summary 45 ?e2 ''Newco'' =
        join '' ''
          ([''Based on our comprehensive analysis, '' @ ''Newco'' @ '' '' @
              overall_assessment 45 @ ''.''] @
           strengths_sentence [] @
           [if ([]::string list) \<noteq> []
            then ''However, attention should be paid to '' @ ''limited market size'' @ ''.''
            else ''Primary concerns include '' @ ''limited market size'' @ ''.''] @
           [recommendation 45])"
    by blast
  also have "\<dots> = ''Based on our comprehensive analysis, Newco shows concerning credit indicators. Primary concerns include limited market size. Investors should carefully evaluate the risk-reward profile.''"
    by code_simp
  finally have g2: "generate_plain_language_summary 45 ?e2 ''Newco'' = ''Based on our comprehensive analysis, Newco shows concerning credit indicators. Primary concerns include limited market size. Investors should carefully evaluate the risk-reward profile.''" .
  from concern_lead_in [of ?e3 "[]" "''x''" 40 "''Newco''"
      "[''high debt burden'', ''limited market size'']"] s3
  have "concerns_sentence [] [''high debt burden'', ''limited market size''] =
        [''Areas of concern include '' @
         join '', '' (butlast [''high debt burden'', ''limited market size'']) @ '', and '' @
         last [''high debt burden'', ''limited market size''] @ ''.'']"
    by blast
  also have "\<dots> = [''Areas of concern include high debt burden, and limited market size.'']"
    by code_simp
  finally have g3: "concerns_sentence [] [''high debt burden'', ''limited market size'']
     = [''Areas of concern include high debt burden, and limited market size.'']" .
  from g1 g2 g3 show ?thesis by (intro conjI)
qed

text \<open>
  The claim as stated fails for two concerns: the explanation of a snapshot without
  revenue and market capitalisation has the concerns \<^verbatim>\<open>high debt burden\<close> and
  \<^verbatim>\<open>limited market size\<close>, and the sentence begins with \<^verbatim>\<open>Areas of concern include\<close>,
  both without a strength and with one.
\<close>

theorem concern_lead_in_counterexample:
  "summary_lists
       \<lparr>base_score = 50, debt_ratio_impact = - 10, market_cap_impact = 0,
        news_sentiment_impact = 0, error = None,
        debt_ratio = Some (PyStr ''Data unavailable''),
        market_cap_billions = Some (PyStr ''Data unavailable''),
        positive_news_count = Some 0, negative_news_count = Some 0,
        final_score = Some 40\<rparr>
     = ([], [''high debt burden'', ''limited market size'']) \<and>
   concerns_sentence [] [''high debt burden'', ''limited market size''] =
     [''Areas of concern include high debt burden, and limited market size.''] \<and>
   \<not> prefix ''Primary concerns include''
       ''Areas of concern include high debt burden, and limited market size.'' \<and>
   generate_plain_language_summary 40
       \<lparr>base_score = 50, debt_ratio_impact = - 10, market_cap_impact = 0,
        news_sentiment_impact = 0, error = None,
        debt_ratio = Some (PyStr ''Data unavailable''),
        market_cap_billions = Some (PyStr ''Data unavailable''),
        positive_news_count = Some 0, negative_news_count = Some 0,
        final_score = Some 40\<rparr>
       ''Newco''
     = ''Based on our comprehensive analysis, Newco shows concerning credit indicators. Areas of concern include high debt burden, and limited market size. Investors should carefully evaluate the risk-reward profile.'' \<and>
   summary_lists
       \<lparr>base_score = 50, debt_ratio_impact = - 10, market_cap_impact = 0,
        news_sentiment_impact = 5, error = None,
        debt_ratio = Some (PyStr ''Data unavailable''),
        market_cap_billions = Some (PyStr ''Data unavailable''),
        positive_news_count = Some 1, negative_news_count = Some 0,
        final_score = Some 45\<rparr>
     = ([''favorable news coverage''], [''high debt burden'', ''limited market size'']) \<and>
   concerns_sentence [''favorable news coverage'']
       [''high debt burden'', ''limited market size''] =
     [''Areas of concern include high debt burden, and limited market size.''] \<and>
   \<not> prefix ''However,''
       ''Areas of concern include high debt burden, and limited market size.''"
  by code_simp

subsection \<open>Rating classifier\<close>

text \<open>
  Claim C6. The rating classifier is total and band-exhaustive: every integer score
  (in particular every score in 0..100) is mapped to one of the seven labels; the seven
  labels are pairwise different, and each label is returned exactly on its band, the
  bands having the inclusive lower bounds 85, 75, 65, 55, 45 and 35 and tiling the
  integers without gap or overlap.
\<close>

theorem get_rating_category_bands:
  "get_rating_category s \<in> set rating_labels \<and>
   distinct rating_labels \<and>
   (get_rating_category s = ''AAA (Excellent)'' \<longleftrightarrow> 85 \<le> s) \<and>
   (get_rating_category s = ''AA (Very Good)'' \<longleftrightarrow> 75 \<le> s \<and> s < 85) \<and>
   (get_rating_category s = ''A (Good)'' \<longleftrightarrow> 65 \<le> s \<and> s < 75) \<and>
   (get_rating_category s = ''BBB (Fair)'' \<longleftrightarrow> 55 \<le> s \<and> s < 65) \<and>
   (get_rating_category s = ''BB (Below Average)'' \<longleftrightarrow> 45 \<le> s \<and> s < 55) \<and>
   (get_rating_category s = ''B (Poor)'' \<longleftrightarrow> 35 \<le> s \<and> s < 45) \<and>
   (get_rating_category s = ''C (High Risk)'' \<longleftrightarrow> s < 35)"
  by (simp add: get_rating_category_def rating_labels_def)

end
